theory Spec2Isabelle
  imports Main "HOL-Library.Sublist" "HOL-Library.Multiset"
begin

section \<open>The calendar page: data model\<close>

text \<open>
  The page component \<^verbatim>\<open>Calendar\<close> of \<^verbatim>\<open>client/src/pages/Calendar.tsx\<close> reads five
  collections from the application store, shows them as calendar items in a month
  grid, a week grid or a list, and asks the store to change a record when an item is
  dropped on a day or edited. The store, the helper module \<^verbatim>\<open>calendarHelpers\<close> and
  the library \<^verbatim>\<open>date-fns\<close> are outside the file; what the component does with them is
  modelled here: its view state as a record, its handlers as functions from a state to
  a new state and the list of effects they cause (store calls and toasts), and an
  exception as a value.
\<close>

subsection \<open>Dates and time strings\<close>

text \<open>
  A JavaScript \<^verbatim>\<open>Date\<close> holds a time value, a whole number of milliseconds since the
  epoch of magnitude at most \<open>8.64 * 10^15\<close>, or \<^verbatim>\<open>NaN\<close> (an Invalid Date). Numbers
  are modelled as integers, \<^verbatim>\<open>NaN\<close> as \<open>None\<close>: on whole numbers of magnitude up to
  \<open>2^53\<close>, which is above every time value, the arithmetic of JavaScript is that of
  the integers.
\<close>

datatype jsdate = Date int | InvalidDate

text \<open>
  A string that is read as a time. \<open>ISO t\<close> stands for an ISO-8601 text of the instant
  \<open>t\<close>: \<^verbatim>\<open>toISOString\<close> writes it and \<^verbatim>\<open>parseISO\<close> reads \<open>t\<close> back from it.
  \<open>Other s\<close> is any text that \<^verbatim>\<open>parseISO\<close> cannot read.
\<close>

datatype timestr = ISO int | Other string

definition maxTime :: int where
  "maxTime = 8640000000000000"

text \<open>\<^verbatim>\<open>new Date(ms)\<close>: the time value is clipped to the range of valid dates.\<close>

definition newDate :: "int option \<Rightarrow> jsdate" where
  "newDate v = (case v of
      None \<Rightarrow> InvalidDate
    | Some ms \<Rightarrow> if - maxTime \<le> ms \<and> ms \<le> maxTime then Date ms else InvalidDate)"

text \<open>\<^verbatim>\<open>d.getTime()\<close>: the time value, \<^verbatim>\<open>NaN\<close> for an Invalid Date.\<close>

fun getTime :: "jsdate \<Rightarrow> int option" where
  "getTime (Date ms) = Some ms"
| "getTime InvalidDate = None"

text \<open>Addition and subtraction of numbers, \<^verbatim>\<open>NaN\<close> absorbing.\<close>

fun numAdd :: "int option \<Rightarrow> int option \<Rightarrow> int option" where
  "numAdd (Some a) (Some b) = Some (a + b)"
| "numAdd _ _ = None"

fun numSub :: "int option \<Rightarrow> int option \<Rightarrow> int option" where
  "numSub (Some a) (Some b) = Some (a - b)"
| "numSub _ _ = None"

text \<open>
  \<^verbatim>\<open>parseISO(s)\<close> of date-fns: the date a text denotes, an Invalid Date for a text it
  cannot read and, as the library documents, for an argument that is not a string
  (here: a missing \<^verbatim>\<open>startTime\<close> or \<^verbatim>\<open>endTime\<close>, passed under the non-null
  assertion \<^verbatim>\<open>!\<close>). Every use of such a date below ends in a thrown exception, as
  would a \<^verbatim>\<open>parseISO\<close> that throws on the missing argument itself.
\<close>

fun parseISO :: "timestr option \<Rightarrow> jsdate" where
  "parseISO (Some (ISO t)) = newDate (Some t)"
| "parseISO (Some (Other s)) = InvalidDate"
| "parseISO None = InvalidDate"

datatype exn = RangeError | TypeError | StoreFailure

text \<open>\<^verbatim>\<open>d.toISOString()\<close> throws a RangeError on an Invalid Date.\<close>

fun toISOString :: "jsdate \<Rightarrow> exn + timestr" where
  "toISOString (Date ms) = Inr (ISO ms)"
| "toISOString InvalidDate = Inl RangeError"

text \<open>
  The calendar functions of date-fns work in the local time zone. They are modelled for
  a zone whose offset from UTC is zero all year, where a day is 86400000 milliseconds.
\<close>

definition msPerDay :: int where
  "msPerDay = 86400000"

definition dayNumber :: "int \<Rightarrow> int" where
  "dayNumber ms = ms div msPerDay"

fun startOfDay :: "jsdate \<Rightarrow> jsdate" where
  "startOfDay (Date ms) = Date (ms - ms mod msPerDay)"
| "startOfDay InvalidDate = InvalidDate"

text \<open>
  \<^verbatim>\<open>isSameDay(a, b)\<close> compares the time values of the two starts of day with
  \<^verbatim>\<open>===\<close>, and \<^verbatim>\<open>NaN === NaN\<close> is false.
\<close>

fun isSameDay :: "jsdate \<Rightarrow> jsdate \<Rightarrow> bool" where
  "isSameDay a b = (case (getTime (startOfDay a), getTime (startOfDay b)) of
      (Some x, Some y) \<Rightarrow> x = y
    | _ \<Rightarrow> False)"

subsection \<open>Calendar items\<close>

datatype itemType = Task | Event | Goal | Reminder | Timeblock


text \<open>
  A calendar item, with the fields the component reads. The optional fields are
  \<open>None\<close> when the property is \<^verbatim>\<open>undefined\<close>.
\<close>

record calendarItem =
  itemId :: string
  title :: string
  itype :: itemType
  date :: jsdate
  priority :: "string option"
  completed :: "bool option"
  startTime :: "timestr option"
  endTime :: "timestr option"
  description :: "string option"
  project :: "string option"

subsection \<open>Search and filters\<close>



text \<open>\<^verbatim>\<open>s.includes(q)\<close>: q occurs in s as a run of consecutive characters.\<close>

fun strIncludes :: "string \<Rightarrow> string \<Rightarrow> bool" where
  "strIncludes [] q = (q = [])"
| "strIncludes (c # s) q = (prefix q (c # s) \<or> strIncludes s q)"








subsection \<open>View state, store calls and effects\<close>

datatype viewType = Month | Week | Day | List

text \<open>The state hooks of the component, one field for each \<^verbatim>\<open>useState\<close>.\<close>

record viewState =
  currentDate :: jsdate
  selectedDate :: jsdate
  viewType :: viewType
  showWorkload :: bool
  isTaskFormOpen :: bool
  isEventFormOpen :: bool
  isTimeBlockFormOpen :: bool
  isFocusModeOpen :: bool
  isRecurrenceFormOpen :: bool
  editingItem :: "calendarItem option"
  draggedItem :: "calendarItem option"
  draggedOver :: "jsdate option"
  searchQuery :: string
  filterProject :: string
  filterType :: string

text \<open>
  The object of changes given to an update operation of the store: the properties
  that are set, in the order of the object literal.
\<close>

datatype jsval = VTime timestr | VBool bool | VStr string | VUndefined

type_synonym updates = "(string \<times> jsval) list"

datatype storeCall =
    UpdateTask string updates
  | UpdateEvent string updates
  | UpdateTimeBlock string updates





text \<open>
  A toast, by the translation keys of its title and description and its variant.
  The translation function \<^verbatim>\<open>t\<close> is not applied in the model.
\<close>

record toastMsg =
  toastTitle :: string
  toastDescription :: "string list"
  destructive :: bool

datatype effect = Call storeCall | ShowToast toastMsg

fun storeCalls :: "effect list \<Rightarrow> storeCall list" where
  "storeCalls [] = []"
| "storeCalls (Call c # es) = c # storeCalls es"
| "storeCalls (ShowToast m # es) = storeCalls es"

fun toasts :: "effect list \<Rightarrow> toastMsg list" where
  "toasts [] = []"
| "toasts (Call c # es) = toasts es"
| "toasts (ShowToast m # es) = m # toasts es"

text \<open>
  A piece of handler code either returns a value or throws, and causes effects on the
  way: the pair of its outcome and the effects up to the return or the throw.
\<close>

type_synonym 'a run = "(exn + 'a) \<times> effect list"

definition ret :: "'a \<Rightarrow> 'a run" where
  "ret x = (Inr x, [])"

text \<open>Sequencing: the second part runs only when the first returns.\<close>

definition andThen :: "'a run \<Rightarrow> ('a \<Rightarrow> 'b run) \<Rightarrow> 'b run" where
  "andThen m f = (case m of
      (Inl e, out) \<Rightarrow> (Inl e, out)
    | (Inr x, out) \<Rightarrow> (case f x of (r, out') \<Rightarrow> (r, out @ out')))"

text \<open>\<^verbatim>\<open>try { m } catch (error) { h }\<close>\<close>

definition tryCatch :: "'a run \<Rightarrow> (exn \<Rightarrow> 'a run) \<Rightarrow> 'a run" where
  "tryCatch m h = (case m of
      (Inl e, out) \<Rightarrow> (case h e of (r, out') \<Rightarrow> (r, out @ out'))
    | (Inr x, out) \<Rightarrow> (Inr x, out))"

text \<open>Lifting a value that may be an exception (a throwing expression).\<close>

definition fromResult :: "exn + 'a \<Rightarrow> 'a run" where
  "fromResult v = (v, [])"

definition toast :: "toastMsg \<Rightarrow> unit run" where
  "toast m = (Inr (), [ShowToast m])"

text \<open>
  An awaited store operation. The store is outside the component: \<open>fails c\<close> tells
  whether the store rejects the call \<open>c\<close>. The call is issued either way; a rejection
  is thrown at the \<^verbatim>\<open>await\<close>.
\<close>

definition awaitStore :: "(storeCall \<Rightarrow> bool) \<Rightarrow> storeCall \<Rightarrow> unit run" where
  "awaitStore fails c = (if fails c then (Inl StoreFailure, [Call c]) else (Inr (), [Call c]))"

text \<open>What a handler leaves behind: the view state, the effects, and an exception
  that escaped it, if any.\<close>

record handled =
  stateAfter :: viewState
  effects :: "effect list"
  escaped :: "exn option"

definition handlerResult :: "viewState \<Rightarrow> unit run \<Rightarrow> handled" where
  "handlerResult st r =
     \<lparr>stateAfter = st, effects = snd r,
      escaped = (case fst r of Inl e \<Rightarrow> Some e | Inr u \<Rightarrow> None)\<rparr>"

subsection \<open>Navigation\<close>



























subsection \<open>Drag and drop\<close>

definition handleDragStart :: "viewState \<Rightarrow> calendarItem \<Rightarrow> viewState" where
  "handleDragStart st item = st\<lparr>draggedItem := Some item\<rparr>"

definition handleDragOver :: "viewState \<Rightarrow> jsdate \<Rightarrow> viewState" where
  "handleDragOver st day = st\<lparr>draggedOver := Some day\<rparr>"

text \<open>
  A string is taken as true by a conditional unless it is missing or empty.
\<close>

fun truthy :: "timestr option \<Rightarrow> bool" where
  "truthy None = False"
| "truthy (Some (Other s)) = (s \<noteq> [])"
| "truthy (Some (ISO t)) = True"

text \<open>
  The duration of a dragged event or time block, in milliseconds: the difference of
  its two times when it has an end time, one hour otherwise.
\<close>

definition dragDuration :: "calendarItem \<Rightarrow> int option" where
  "dragDuration item =
     (if truthy (endTime item)
      then numSub (getTime (parseISO (endTime item))) (getTime (parseISO (startTime item)))
      else Some (60 * 60 * 1000))"

definition successToast :: toastMsg where
  "successToast =
     \<lparr>toastTitle = ''actions.success'',
      toastDescription = [''calendar.dragToReschedule'', '' - '', ''actions.completed''],
      destructive = False\<rparr>"

definition rescheduleErrorToast :: toastMsg where
  "rescheduleErrorToast =
     \<lparr>toastTitle = ''actions.error'',
      toastDescription = [''calendar.rescheduleError''],
      destructive = True\<rparr>"

definition updateErrorToast :: toastMsg where
  "updateErrorToast =
     \<lparr>toastTitle = ''actions.error'',
      toastDescription = [''calendar.updateError''],
      destructive = True\<rparr>"

text \<open>
  The \<^verbatim>\<open>try\<close> block of \<^verbatim>\<open>handleDrop\<close>. The changes are built before the store is
  called, so a date that cannot be written as a string throws before any call.
\<close>

definition dropUpdate :: "(storeCall \<Rightarrow> bool) \<Rightarrow> calendarItem \<Rightarrow> jsdate \<Rightarrow> unit run" where
  "dropUpdate fails item day =
     (let newDay = startOfDay day in
      if itype item = Task then
        andThen (fromResult (toISOString newDay)) (\<lambda>due.
          awaitStore fails (UpdateTask (itemId item) [(''dueDate'', VTime due)]))
      else if itype item = Event then
        (let duration = dragDuration item in
         andThen (fromResult (toISOString newDay)) (\<lambda>start.
         andThen (fromResult (toISOString (newDate (numAdd (getTime newDay) duration)))) (\<lambda>finish.
           awaitStore fails (UpdateEvent (itemId item)
             [(''startDate'', VTime start), (''endDate'', VTime finish)]))))
      else if itype item = Timeblock then
        (let duration = dragDuration item in
         andThen (fromResult (toISOString newDay)) (\<lambda>start.
         andThen (fromResult (toISOString (newDate (numAdd (getTime newDay) duration)))) (\<lambda>finish.
           awaitStore fails (UpdateTimeBlock (itemId item)
             [(''startTime'', VTime start), (''endTime'', VTime finish)]))))
      else ret ())"

definition dropTry :: "(storeCall \<Rightarrow> bool) \<Rightarrow> calendarItem \<Rightarrow> jsdate \<Rightarrow> unit run" where
  "dropTry fails item day =
     andThen (dropUpdate fails item day) (\<lambda>u. toast successToast)"

text \<open>
  \<^verbatim>\<open>handleDrop\<close>: nothing at all without a dragged item; otherwise the \<^verbatim>\<open>try\<close> block,
  the error toast for whatever it throws, and in the \<^verbatim>\<open>finally\<close> block the end of
  the drag.
\<close>

definition handleDrop :: "(storeCall \<Rightarrow> bool) \<Rightarrow> viewState \<Rightarrow> jsdate \<Rightarrow> handled" where
  "handleDrop fails st day =
     (case draggedItem st of
        None \<Rightarrow> handlerResult st (ret ())
      | Some item \<Rightarrow>
          handlerResult (st\<lparr>draggedItem := None, draggedOver := None\<rparr>)
            (tryCatch (dropTry fails item day) (\<lambda>error. toast rescheduleErrorToast)))"

subsection \<open>Editing\<close>

text \<open>
  \<^verbatim>\<open>handleUpdateCalendarItem(id, updates)\<close>, the save operation given to the focus
  mode: the first calendar item of that id decides which store operation is called.
\<close>

definition handleUpdateCalendarItem ::
  "(storeCall \<Rightarrow> bool) \<Rightarrow> calendarItem list \<Rightarrow> viewState \<Rightarrow> string \<Rightarrow> updates \<Rightarrow> handled" where
  "handleUpdateCalendarItem fails calendarItems st ident changes =
     (case find (\<lambda>i. itemId i = ident) calendarItems of
        None \<Rightarrow> handlerResult st (ret ())
      | Some item \<Rightarrow>
          handlerResult st
            (tryCatch
               (case itype item of
                  Task \<Rightarrow> awaitStore fails (UpdateTask ident changes)
                | Event \<Rightarrow> awaitStore fails (UpdateEvent ident changes)
                | Timeblock \<Rightarrow> awaitStore fails (UpdateTimeBlock ident changes)
                | _ \<Rightarrow> ret ())
               (\<lambda>error. toast updateErrorToast)))"

text \<open>The view state a claim calls local: everything but the drag and edit state.\<close>

definition sameView :: "viewState \<Rightarrow> viewState \<Rightarrow> bool" where
  "sameView a b =
     (currentDate a = currentDate b \<and> selectedDate a = selectedDate b \<and>
      viewType a = viewType b \<and> showWorkload a = showWorkload b \<and>
      searchQuery a = searchQuery b \<and> filterProject a = filterProject b \<and>
      filterType a = filterType b \<and>
      isTaskFormOpen a = isTaskFormOpen b \<and> isEventFormOpen a = isEventFormOpen b \<and>
      isTimeBlockFormOpen a = isTimeBlockFormOpen b \<and>
      isFocusModeOpen a = isFocusModeOpen b \<and>
      isRecurrenceFormOpen a = isRecurrenceFormOpen b)"

subsection \<open>The three views\<close>

text \<open>The items of a day cell, in the month grid and in the week grid.\<close>

definition dayItems :: "calendarItem list \<Rightarrow> jsdate \<Rightarrow> calendarItem list" where
  "dayItems filtered day = filter (\<lambda>item. isSameDay (date item) day) filtered"

text \<open>
  A day cell of the month grid: the items it renders, and the count of its
  \<^verbatim>\<open>+n more\<close> line when it has one.
\<close>

record monthCell =
  shown :: "calendarItem list"
  moreCount :: "nat option"

definition renderMonthCell :: "calendarItem list \<Rightarrow> jsdate \<Rightarrow> monthCell" where
  "renderMonthCell filtered day =
     (let items = dayItems filtered day in
      \<lparr>shown = take 3 items,
       moreCount = (if length items > 3 then Some (length items - 3) else None)\<rparr>)"

text \<open>
  \<^verbatim>\<open>format(date, pattern)\<close> of date-fns throws a RangeError on an Invalid Date. The
  text it writes for a valid date is not modelled: a rendered time is the instant.
\<close>

fun formatDate :: "jsdate \<Rightarrow> exn + int" where
  "formatDate (Date ms) = Inr ms"
| "formatDate InvalidDate = Inl RangeError"

text \<open>
  A rendered row of the week grid or of the list: the item and its start time as
  formatted from \<^verbatim>\<open>parseISO(item.startTime!)\<close>. Rendering a list of items stops at
  the first row that throws.
\<close>

fun renderRows :: "calendarItem list \<Rightarrow> exn + (calendarItem \<times> int) list" where
  "renderRows [] = Inr []"
| "renderRows (item # items) =
     (case formatDate (parseISO (startTime item)) of
        Inl e \<Rightarrow> Inl e
      | Inr shownStart \<Rightarrow>
          (case renderRows items of
             Inl e \<Rightarrow> Inl e
           | Inr rows \<Rightarrow> Inr ((item, shownStart) # rows)))"


text \<open>
  The comparison function of the list view: the difference of the two start times,
  \<^verbatim>\<open>NaN\<close> when one of them is missing or unreadable.
\<close>

definition compareStart :: "calendarItem \<Rightarrow> calendarItem \<Rightarrow> int option" where
  "compareStart a b =
     numSub (getTime (parseISO (startTime a))) (getTime (parseISO (startTime b)))"

text \<open>
  \<^verbatim>\<open>Array.prototype.sort\<close> with a comparison function, as a stable insertion sort:
  an element goes before the first element it does not compare greater than. The
  sort takes \<^verbatim>\<open>NaN\<close> from the comparison function as 0. For a comparison function
  that is consistent this is the order every conforming sort gives.
\<close>

fun insertBy :: "('a \<Rightarrow> 'a \<Rightarrow> int option) \<Rightarrow> 'a \<Rightarrow> 'a list \<Rightarrow> 'a list" where
  "insertBy cmp x [] = [x]"
| "insertBy cmp x (y # ys) =
     (if (case cmp x y of None \<Rightarrow> 0 | Some v \<Rightarrow> v) \<le> 0 then x # y # ys
      else y # insertBy cmp x ys)"

definition sortBy :: "('a \<Rightarrow> 'a \<Rightarrow> int option) \<Rightarrow> 'a list \<Rightarrow> 'a list" where
  "sortBy cmp xs = foldr (insertBy cmp) xs []"

definition sortedItems :: "calendarItem list \<Rightarrow> calendarItem list" where
  "sortedItems filtered = sortBy compareStart filtered"

text \<open>The start time of an item as a number, when it has a readable one.\<close>

definition startMs :: "calendarItem \<Rightarrow> int option" where
  "startMs item = getTime (parseISO (startTime item))"

text \<open>Every adjacent pair is in order of start time, both start times being readable.\<close>

fun ascendingStart :: "calendarItem list \<Rightarrow> bool" where
  "ascendingStart (a # b # rest) =
     ((case (startMs a, startMs b) of (Some x, Some y) \<Rightarrow> x \<le> y | _ \<Rightarrow> False) \<and>
      ascendingStart (b # rest))"
| "ascendingStart _ = True"

text \<open>The start time as a sort key: the number, and 0 for a start time that is not readable.\<close>

definition startKey :: "calendarItem \<Rightarrow> int" where
  "startKey item = (case startMs item of Some v \<Rightarrow> v | None \<Rightarrow> 0)"

text \<open>The list view renders the sorted items.\<close>

definition renderListView :: "calendarItem list \<Rightarrow> exn + (calendarItem \<times> int) list" where
  "renderListView filtered = renderRows (sortedItems filtered)"

subsection \<open>Auto-rollover on mount\<close>

text \<open>A task of the store, with the fields the effect reads.\<close>

record task =
  taskId :: string
  dueDate :: jsval
  isAutoRolled :: "bool option"

text \<open>
  \<^verbatim>\<open>rolledTasks.filter((task, index) => task.isAutoRolled !== tasks[index].isAutoRolled)\<close>,
  from a given index on. Reading a property of \<^verbatim>\<open>tasks[index]\<close> beyond the end of
  \<^verbatim>\<open>tasks\<close> throws a TypeError.
\<close>

fun tasksToUpdateFrom :: "task list \<Rightarrow> nat \<Rightarrow> task list \<Rightarrow> exn + task list" where
  "tasksToUpdateFrom tasks index [] = Inr []"
| "tasksToUpdateFrom tasks index (t # rest) =
     (if index < length tasks then
        (case tasksToUpdateFrom tasks (Suc index) rest of
           Inl e \<Rightarrow> Inl e
         | Inr keep \<Rightarrow>
             Inr (if isAutoRolled t \<noteq> isAutoRolled (tasks ! index) then t # keep else keep))
      else Inl TypeError)"

text \<open>
  The effect: one \<^verbatim>\<open>updateTask\<close> for each task to update. The calls are not awaited.
  \<^verbatim>\<open>autoRolloverTasks\<close> belongs to the helper module and is a parameter here.
\<close>

definition rolloverCall :: "task \<Rightarrow> storeCall" where
  "rolloverCall t =
     UpdateTask (taskId t) [(''dueDate'', dueDate t), (''isAutoRolled'', VBool True)]"

definition rolloverEffect ::
  "(task list \<Rightarrow> task list) \<Rightarrow> task list \<Rightarrow> exn + storeCall list" where
  "rolloverEffect autoRolloverTasks tasks =
     (let rolledTasks = autoRolloverTasks tasks in
      case tasksToUpdateFrom tasks 0 rolledTasks of
        Inl e \<Rightarrow> Inl e
      | Inr tasksToUpdate \<Rightarrow> Inr (map rolloverCall tasksToUpdate))"

text \<open>
  \<^verbatim>\<open>useEffect(f, [])\<close>: the effect runs after the first render of the component and
  after no later one. The life of a mounted component is the list of the task lists
  the store held at its renders, the first render first.
\<close>

fun effectRuns ::
  "(task list \<Rightarrow> task list) \<Rightarrow> bool \<Rightarrow> task list list \<Rightarrow> (exn + storeCall list) list" where
  "effectRuns autoRolloverTasks isMount [] = []"
| "effectRuns autoRolloverTasks isMount (tasks # later) =
     (if isMount then [rolloverEffect autoRolloverTasks tasks] else []) @
     effectRuns autoRolloverTasks False later"

definition componentLife ::
  "(task list \<Rightarrow> task list) \<Rightarrow> task list list \<Rightarrow> (exn + storeCall list) list" where
  "componentLife autoRolloverTasks renders = effectRuns autoRolloverTasks True renders"

subsection \<open>Sample data\<close>

text \<open>
  Items, a view state and tasks on which the theorems below are run. The times are
  those of the first days of January 2024: 1704067200000 is midnight of 1 January.
\<close>

definition sampleTask :: calendarItem where
  "sampleTask =
     \<lparr>itemId = ''t1'', title = ''Write report'', itype = Task,
      date = Date 1704067200000, priority = Some ''high'', completed = Some False,
      startTime = None, endTime = None,
      description = Some ''Notes of the quarterly Meeting'', project = Some ''work''\<rparr>"

definition sampleEvent :: calendarItem where
  "sampleEvent =
     \<lparr>itemId = ''e1'', title = ''Team MEETING'', itype = Event,
      date = Date 1704103200000, priority = None, completed = None,
      startTime = Some (ISO 1704103200000), endTime = Some (ISO 1704108600000),
      description = None, project = Some ''work''\<rparr>"

definition sampleBlock :: calendarItem where
  "sampleBlock =
     \<lparr>itemId = ''b1'', title = ''Deep work'', itype = Timeblock,
      date = Date 1704096000000, priority = None, completed = None,
      startTime = Some (ISO 1704096000000), endTime = Some (ISO 1704103200000),
      description = None, project = None\<rparr>"

definition sampleGoal :: calendarItem where
  "sampleGoal =
     \<lparr>itemId = ''g1'', title = ''Run a marathon'', itype = Goal,
      date = Date 1704067200000, priority = None, completed = None,
      startTime = Some (ISO 1704067200000), endTime = None,
      description = None, project = Some ''health''\<rparr>"


definition sampleVague :: calendarItem where
  "sampleVague =
     \<lparr>itemId = ''r1'', title = ''Call the bank'', itype = Reminder,
      date = Date 1704067200000, priority = None, completed = None,
      startTime = Some (Other ''tomorrow''), endTime = None,
      description = None, project = None\<rparr>"

definition sampleState :: viewState where
  "sampleState =
     \<lparr>currentDate = Date 1706693400000, selectedDate = Date 1704067200000,
      viewType = Month, showWorkload = False, isTaskFormOpen = False,
      isEventFormOpen = False, isTimeBlockFormOpen = False, isFocusModeOpen = False,
      isRecurrenceFormOpen = False, editingItem = None, draggedItem = None,
      draggedOver = None, searchQuery = [], filterProject = ''all'',
      filterType = ''all''\<rparr>"

text \<open>
  Modelled from the spec: \<^verbatim>\<open>autoRolloverTasks\<close> of the helper module, which is not
  part of the page. The glossary calls auto-rollover the rule that advances an overdue
  task's due date forward to the current day; here a task is overdue when its due
  date is a time before the start of the current day, and a task rolled forward is
  flagged.
\<close>

definition rollForward :: "int \<Rightarrow> task list \<Rightarrow> task list" where
  "rollForward today tasks =
     map (\<lambda>t. case dueDate t of
                 VTime (ISO due) \<Rightarrow>
                   if due < today then t\<lparr>dueDate := VTime (ISO today), isAutoRolled := Some True\<rparr>
                   else t
               | _ \<Rightarrow> t) tasks"

definition sampleTasks :: "task list" where
  "sampleTasks =
     [\<lparr>taskId = ''t1'', dueDate = VTime (ISO 1703980800000), isAutoRolled = None\<rparr>,
      \<lparr>taskId = ''t2'', dueDate = VTime (ISO 1704153600000), isAutoRolled = None\<rparr>,
      \<lparr>taskId = ''t3'', dueDate = VTime (ISO 1703894400000), isAutoRolled = Some True\<rparr>,
      \<lparr>taskId = ''t4'', dueDate = VTime (ISO 1703808000000), isAutoRolled = Some False\<rparr>]"

section \<open>Search and filters: the filtered items\<close>





lemma strIncludes_Nil [simp]: "strIncludes s []"
  by (induction s) auto



section \<open>Drag and drop, and saving an edit\<close>

text \<open>What the \<^verbatim>\<open>try\<close> block of \<^verbatim>\<open>handleDrop\<close> can do, and what the handlers leave.\<close>

lemma storeCalls_append: "storeCalls (xs @ ys) = storeCalls xs @ storeCalls ys"
  by (induction xs rule: storeCalls.induct) auto

lemma toasts_append: "toasts (xs @ ys) = toasts xs @ toasts ys"
  by (induction xs rule: toasts.induct) auto

lemma dropUpdate_cases:
  "dropUpdate fails item day = (Inr (), []) \<or>
   (\<exists>e. dropUpdate fails item day = (Inl e, [])) \<or>
   (\<exists>c. dropUpdate fails item day = awaitStore fails c)"
  unfolding dropUpdate_def Let_def andThen_def fromResult_def ret_def
  by (auto split: sum.splits prod.splits)

lemma dropTry_cases:
  "dropTry fails item day = (Inr (), [ShowToast successToast]) \<or>
   (\<exists>e. dropTry fails item day = (Inl e, [])) \<or>
   (\<exists>c. fails c \<and> dropTry fails item day = (Inl StoreFailure, [Call c])) \<or>
   (\<exists>c. \<not> fails c \<and> dropTry fails item day = (Inr (), [Call c, ShowToast successToast]))"
proof -
  consider (returned) "dropUpdate fails item day = (Inr (), [])"
    | (thrown) e where "dropUpdate fails item day = (Inl e, [])"
    | (called) c where "dropUpdate fails item day = awaitStore fails c"
    using dropUpdate_cases [of fails item day] by blast
  then show ?thesis
  proof cases
    case returned
    then show ?thesis by (simp add: dropTry_def andThen_def toast_def)
  next
    case thrown
    then show ?thesis by (simp add: dropTry_def andThen_def)
  next
    case called
    then show ?thesis
      by (cases "fails c") (auto simp: dropTry_def andThen_def toast_def awaitStore_def)
  qed
qed

lemma handleDrop_item:
  assumes "draggedItem st = Some item"
  shows "stateAfter (handleDrop fails st day) = st\<lparr>draggedItem := None, draggedOver := None\<rparr>"
    and "escaped (handleDrop fails st day) = None"
    and "effects (handleDrop fails st day) = [ShowToast successToast] \<or>
         effects (handleDrop fails st day) = [ShowToast rescheduleErrorToast] \<or>
         (\<exists>c. fails c \<and> effects (handleDrop fails st day) = [Call c, ShowToast rescheduleErrorToast]) \<or>
         (\<exists>c. \<not> fails c \<and> effects (handleDrop fails st day) = [Call c, ShowToast successToast])"
  using assms dropTry_cases [of fails item day]
  unfolding handleDrop_def handlerResult_def tryCatch_def toast_def
  by (auto split: sum.splits prod.splits)

lemma dropUpdate_Task:
  assumes "itype item = Task"
  shows "dropUpdate fails item day =
     (case startOfDay day of
        InvalidDate \<Rightarrow> (Inl RangeError, [])
      | Date d \<Rightarrow> awaitStore fails (UpdateTask (itemId item) [(''dueDate'', VTime (ISO d))]))"
  using assms unfolding dropUpdate_def Let_def andThen_def fromResult_def awaitStore_def
  by (auto split: jsdate.splits)

lemma dropUpdate_Event:
  assumes "itype item = Event"
  shows "dropUpdate fails item day =
     (case startOfDay day of
        InvalidDate \<Rightarrow> (Inl RangeError, [])
      | Date d \<Rightarrow>
          (case newDate (numAdd (Some d) (dragDuration item)) of
             InvalidDate \<Rightarrow> (Inl RangeError, [])
           | Date f \<Rightarrow> awaitStore fails (UpdateEvent (itemId item)
               [(''startDate'', VTime (ISO d)), (''endDate'', VTime (ISO f))])))"
  using assms unfolding dropUpdate_def Let_def andThen_def fromResult_def awaitStore_def
  by (auto split: jsdate.splits)

lemma dropUpdate_Timeblock:
  assumes "itype item = Timeblock"
  shows "dropUpdate fails item day =
     (case startOfDay day of
        InvalidDate \<Rightarrow> (Inl RangeError, [])
      | Date d \<Rightarrow>
          (case newDate (numAdd (Some d) (dragDuration item)) of
             InvalidDate \<Rightarrow> (Inl RangeError, [])
           | Date f \<Rightarrow> awaitStore fails (UpdateTimeBlock (itemId item)
               [(''startTime'', VTime (ISO d)), (''endTime'', VTime (ISO f))])))"
  using assms unfolding dropUpdate_def Let_def andThen_def fromResult_def awaitStore_def
  by (auto split: jsdate.splits)

lemma dropUpdate_other:
  assumes "itype item = Goal \<or> itype item = Reminder"
  shows "dropUpdate fails item day = (Inr (), [])"
  using assms unfolding dropUpdate_def Let_def ret_def by auto

lemma storeCalls_handleDrop:
  assumes "draggedItem st = Some item"
  shows "storeCalls (effects (handleDrop fails st day)) = storeCalls (snd (dropUpdate fails item day))"
  using assms
  unfolding handleDrop_def handlerResult_def tryCatch_def toast_def dropTry_def andThen_def
  by (auto split: sum.splits prod.splits simp: storeCalls_append)

lemma storeCalls_awaitStore: "storeCalls (snd (awaitStore fails c)) = [c]"
  by (simp add: awaitStore_def)

lemma newDate_Date: "newDate v = Date f \<Longrightarrow> v = Some f"
  by (auto simp: newDate_def split: option.splits if_splits)

lemma parseISO_Date: "parseISO ts = Date t \<Longrightarrow> ts = Some (ISO t)"
  by (cases ts rule: parseISO.cases) (auto dest: newDate_Date)

lemma dragDuration_parsed:
  assumes "parseISO (startTime item) = Date s" and "parseISO (endTime item) = Date e"
  shows "dragDuration item = Some (e - s)"
proof -
  have "endTime item = Some (ISO e)" using assms(2) by (rule parseISO_Date)
  then show ?thesis using assms by (simp add: dragDuration_def)
qed

lemma handleUpdate_cases:
  "stateAfter (handleUpdateCalendarItem fails items st i u) = st \<and>
   escaped (handleUpdateCalendarItem fails items st i u) = None \<and>
   (effects (handleUpdateCalendarItem fails items st i u) = [] \<or>
    (\<exists>c. fails c \<and> effects (handleUpdateCalendarItem fails items st i u) = [Call c, ShowToast updateErrorToast]) \<or>
    (\<exists>c. \<not> fails c \<and> effects (handleUpdateCalendarItem fails items st i u) = [Call c]))"
  unfolding handleUpdateCalendarItem_def handlerResult_def tryCatch_def toast_def awaitStore_def ret_def
  by (auto split: option.splits itemType.splits)

lemma handleDrop_cases:
  "escaped (handleDrop fails st day) = None \<and>
   sameView (stateAfter (handleDrop fails st day)) st \<and>
   (effects (handleDrop fails st day) = [] \<or>
    effects (handleDrop fails st day) = [ShowToast successToast] \<or>
    effects (handleDrop fails st day) = [ShowToast rescheduleErrorToast] \<or>
    (\<exists>c. fails c \<and> effects (handleDrop fails st day) = [Call c, ShowToast rescheduleErrorToast]) \<or>
    (\<exists>c. \<not> fails c \<and> effects (handleDrop fails st day) = [Call c, ShowToast successToast]))"
proof (cases "draggedItem st")
  case None
  then show ?thesis
    by (simp add: handleDrop_def handlerResult_def ret_def sameView_def)
next
  case (Some item)
  from handleDrop_item [OF Some, of fails day] show ?thesis
    by (simp add: sameView_def)
qed

text \<open>
  The start of a day is midnight of that day. A drop on a valid day issues the update
  of a task always, and the update of an event or a time block with readable times
  whenever the new end is a valid date.
\<close>

lemma startOfDay_midnight:
  assumes "startOfDay (Date d) = Date m"
  shows "m mod msPerDay = 0 \<and> dayNumber m = dayNumber d \<and> m \<le> d"
proof -
  from assms have "m = d - d mod msPerDay" by simp
  then have m: "m = msPerDay * (d div msPerDay)" by (simp add: minus_mod_eq_mult_div)
  have "0 \<le> d mod msPerDay" by (simp add: msPerDay_def)
  with \<open>m = d - d mod msPerDay\<close> have "m \<le> d" by simp
  with m show ?thesis by (simp add: dayNumber_def msPerDay_def)
qed

lemma handleDrop_issues_update:
  assumes "draggedItem st = Some item" and "day = Date d"
  shows "itype item = Task \<Longrightarrow>
      storeCalls (effects (handleDrop fails st day)) =
        [UpdateTask (itemId item) [(''dueDate'', VTime (ISO (d - d mod msPerDay)))]]"
    and "itype item = Event \<Longrightarrow>
      parseISO (startTime item) = Date s \<Longrightarrow> parseISO (endTime item) = Date e \<Longrightarrow>
      - maxTime \<le> d - d mod msPerDay + (e - s) \<Longrightarrow> d - d mod msPerDay + (e - s) \<le> maxTime \<Longrightarrow>
      storeCalls (effects (handleDrop fails st day)) =
        [UpdateEvent (itemId item)
           [(''startDate'', VTime (ISO (d - d mod msPerDay))),
            (''endDate'', VTime (ISO (d - d mod msPerDay + (e - s))))]]"
    and "itype item = Timeblock \<Longrightarrow>
      parseISO (startTime item) = Date s \<Longrightarrow> parseISO (endTime item) = Date e \<Longrightarrow>
      - maxTime \<le> d - d mod msPerDay + (e - s) \<Longrightarrow> d - d mod msPerDay + (e - s) \<le> maxTime \<Longrightarrow>
      storeCalls (effects (handleDrop fails st day)) =
        [UpdateTimeBlock (itemId item)
           [(''startTime'', VTime (ISO (d - d mod msPerDay))),
            (''endTime'', VTime (ISO (d - d mod msPerDay + (e - s))))]]"
  using assms
  by (simp_all add: storeCalls_handleDrop dropUpdate_Task dropUpdate_Event dropUpdate_Timeblock
      storeCalls_awaitStore dragDuration_parsed newDate_def)



text \<open>
  Claim C10. Without a dragged item \<^verbatim>\<open>handleDrop\<close> does nothing: no store call, no
  toast, no change of state. With a dragged goal or reminder it calls no store
  operation, shows the success toast all the same, and ends the drag.
\<close>

theorem handleDrop_no_mutation:
  "(draggedItem st = None \<longrightarrow>
      handleDrop fails st day = \<lparr>stateAfter = st, effects = [], escaped = None\<rparr>) \<and>
   (\<forall>item. draggedItem st = Some item \<and> (itype item = Goal \<or> itype item = Reminder) \<longrightarrow>
      effects (handleDrop fails st day) = [ShowToast successToast] \<and>
      storeCalls (effects (handleDrop fails st day)) = [] \<and>
      stateAfter (handleDrop fails st day) = st\<lparr>draggedItem := None, draggedOver := None\<rparr> \<and>
      escaped (handleDrop fails st day) = None)"
proof -
  have a: "handleDrop fails st day = \<lparr>stateAfter = st, effects = [], escaped = None\<rparr>"
    if "draggedItem st = None"
    using that by (simp add: handleDrop_def handlerResult_def ret_def)
  have b: "effects (handleDrop fails st day) = [ShowToast successToast]"
    if "draggedItem st = Some item" "itype item = Goal \<or> itype item = Reminder" for item
    using that dropUpdate_other [of item fails day]
    by (simp add: handleDrop_def handlerResult_def tryCatch_def dropTry_def andThen_def toast_def)
  show ?thesis
    using a b handleDrop_item(1,2) by (auto simp del: storeCalls.simps simp add: storeCalls.simps(1,3))
qed

theorem handleDrop_no_mutation_witness:
  "handleDrop (\<lambda>c. False) sampleState (Date 1704378600123) =
     \<lparr>stateAfter = sampleState, effects = [], escaped = None\<rparr> \<and>
   effects (handleDrop (\<lambda>c. False) (handleDragStart sampleState sampleGoal)
      (Date 1704378600123)) = [ShowToast successToast] \<and>
   storeCalls (effects (handleDrop (\<lambda>c. False) (handleDragStart sampleState sampleGoal)
      (Date 1704378600123))) = [] \<and>
   draggedItem (stateAfter (handleDrop (\<lambda>c. False) (handleDragStart sampleState sampleGoal)
      (Date 1704378600123))) = None"
proof -
  let ?st = "handleDragStart sampleState sampleGoal"
  have none: "draggedItem sampleState = None" by (simp add: sampleState_def)
  have goal: "draggedItem ?st = Some sampleGoal \<and> (itype sampleGoal = Goal \<or> itype sampleGoal = Reminder)"
    by (simp add: sampleGoal_def handleDragStart_def)
  from handleDrop_no_mutation [of sampleState "\<lambda>c. False" "Date 1704378600123"] none
  have a: "handleDrop (\<lambda>c. False) sampleState (Date 1704378600123) =
     \<lparr>stateAfter = sampleState, effects = [], escaped = None\<rparr>" by blast
  from handleDrop_no_mutation [of ?st "\<lambda>c. False" "Date 1704378600123"] goal
  have b: "effects (handleDrop (\<lambda>c. False) ?st (Date 1704378600123)) = [ShowToast successToast] \<and>
      storeCalls (effects (handleDrop (\<lambda>c. False) ?st (Date 1704378600123))) = [] \<and>
      stateAfter (handleDrop (\<lambda>c. False) ?st (Date 1704378600123)) =
        ?st\<lparr>draggedItem := None, draggedOver := None\<rparr>" by blast
  from a b show ?thesis by simp
qed

text \<open>
  Claim C4. Neither \<^verbatim>\<open>handleDrop\<close> nor \<^verbatim>\<open>handleUpdateCalendarItem\<close> lets an
  exception escape. When the store rejects the call a handler issued, the handler
  shows its error toast and no other; the drop leaves the current date, the selected
  date, the view type, the filters and the modal flags as they were, and the save of
  an edit leaves the whole view state as it was.
\<close>

theorem store_failure_is_caught:
  "escaped (handleDrop fails st day) = None \<and>
   sameView (stateAfter (handleDrop fails st day)) st \<and>
   (\<forall>c \<in> set (storeCalls (effects (handleDrop fails st day))). fails c \<longrightarrow>
      toasts (effects (handleDrop fails st day)) = [rescheduleErrorToast]) \<and>
   escaped (handleUpdateCalendarItem fails items st i u) = None \<and>
   stateAfter (handleUpdateCalendarItem fails items st i u) = st \<and>
   (\<forall>c \<in> set (storeCalls (effects (handleUpdateCalendarItem fails items st i u))). fails c \<longrightarrow>
      toasts (effects (handleUpdateCalendarItem fails items st i u)) = [updateErrorToast])"
proof -
  have d: "\<forall>c \<in> set (storeCalls (effects (handleDrop fails st day))). fails c \<longrightarrow>
      toasts (effects (handleDrop fails st day)) = [rescheduleErrorToast]"
    using handleDrop_cases [of fails st day] by (elim conjE disjE exE) auto
  have e: "\<forall>c \<in> set (storeCalls (effects (handleUpdateCalendarItem fails items st i u))). fails c \<longrightarrow>
      toasts (effects (handleUpdateCalendarItem fails items st i u)) = [updateErrorToast]"
    using handleUpdate_cases [of fails items st i u] by (elim conjE disjE exE) auto
  from d e handleDrop_cases [of fails st day] handleUpdate_cases [of fails items st i u]
  show ?thesis by blast
qed

theorem store_failure_is_caught_witness:
  "escaped (handleDrop (\<lambda>c. True) (handleDragStart sampleState sampleEvent)
      (Date 1704378600123)) = None \<and>
   toasts (effects (handleDrop (\<lambda>c. True) (handleDragStart sampleState sampleEvent)
      (Date 1704378600123))) = [rescheduleErrorToast] \<and>
   toasts (effects (handleUpdateCalendarItem (\<lambda>c. True) [sampleTask, sampleEvent]
      (handleDragStart sampleState sampleEvent) ''e1'' [(''title'', VStr ''Retro'')])) = [updateErrorToast]"
proof -
  let ?st = "handleDragStart sampleState sampleEvent"
  let ?c = "UpdateEvent ''e1'' [(''startDate'', VTime (ISO 1704326400000)),
                          (''endDate'', VTime (ISO 1704331800000))]"
  let ?d = "UpdateEvent ''e1'' [(''title'', VStr ''Retro'')]"
  have c: "?c \<in> set (storeCalls (effects (handleDrop (\<lambda>c. True) ?st (Date 1704378600123))))"
    by code_simp
  have d: "?d \<in> set (storeCalls (effects (handleUpdateCalendarItem (\<lambda>c. True)
      [sampleTask, sampleEvent] ?st ''e1'' [(''title'', VStr ''Retro'')])))"
    by code_simp
  from store_failure_is_caught [of "\<lambda>c. True" ?st "Date 1704378600123"
      "[sampleTask, sampleEvent]" "''e1''" "[(''title'', VStr ''Retro'')]"] c d
  show ?thesis by blast
qed

text \<open>
  Claim C7. One drop and one save of an edit issue one store call at most. When the
  store rejects that call, the call and the error toast are all the handler does: no
  second call follows.
\<close>

theorem no_retry_after_failure:
  "length (storeCalls (effects (handleDrop fails st day))) \<le> 1 \<and>
   length (storeCalls (effects (handleUpdateCalendarItem fails items st i u))) \<le> 1 \<and>
   (\<forall>c \<in> set (storeCalls (effects (handleDrop fails st day))). fails c \<longrightarrow>
      effects (handleDrop fails st day) = [Call c, ShowToast rescheduleErrorToast]) \<and>
   (\<forall>c \<in> set (storeCalls (effects (handleUpdateCalendarItem fails items st i u))). fails c \<longrightarrow>
      effects (handleUpdateCalendarItem fails items st i u) = [Call c, ShowToast updateErrorToast])"
proof -
  have a: "length (storeCalls (effects (handleDrop fails st day))) \<le> 1 \<and>
    (\<forall>c \<in> set (storeCalls (effects (handleDrop fails st day))). fails c \<longrightarrow>
      effects (handleDrop fails st day) = [Call c, ShowToast rescheduleErrorToast])"
    using handleDrop_cases [of fails st day] by (elim conjE disjE exE) auto
  have b: "length (storeCalls (effects (handleUpdateCalendarItem fails items st i u))) \<le> 1 \<and>
    (\<forall>c \<in> set (storeCalls (effects (handleUpdateCalendarItem fails items st i u))). fails c \<longrightarrow>
      effects (handleUpdateCalendarItem fails items st i u) = [Call c, ShowToast updateErrorToast])"
    using handleUpdate_cases [of fails items st i u] by (elim conjE disjE exE) auto
  from a b show ?thesis by blast
qed

theorem no_retry_after_failure_witness:
  "length (storeCalls (effects (handleDrop (\<lambda>c. True)
      (handleDragStart sampleState sampleTask) (Date 1704378600123)))) \<le> 1 \<and>
   effects (handleDrop (\<lambda>c. True) (handleDragStart sampleState sampleTask)
      (Date 1704378600123)) =
     [Call (UpdateTask ''t1'' [(''dueDate'', VTime (ISO 1704326400000))]),
      ShowToast rescheduleErrorToast] \<and>
   effects (handleUpdateCalendarItem (\<lambda>c. True) [sampleTask, sampleEvent]
      (handleDragStart sampleState sampleTask) ''t1'' [(''completed'', VBool True)]) =
     [Call (UpdateTask ''t1'' [(''completed'', VBool True)]), ShowToast updateErrorToast]"
proof -
  let ?st = "handleDragStart sampleState sampleTask"
  let ?c = "UpdateTask ''t1'' [(''dueDate'', VTime (ISO 1704326400000))]"
  let ?d = "UpdateTask ''t1'' [(''completed'', VBool True)]"
  have c: "?c \<in> set (storeCalls (effects (handleDrop (\<lambda>c. True) ?st (Date 1704378600123))))"
    by code_simp
  have d: "?d \<in> set (storeCalls (effects (handleUpdateCalendarItem (\<lambda>c. True)
      [sampleTask, sampleEvent] ?st ''t1'' [(''completed'', VBool True)])))"
    by code_simp
  from no_retry_after_failure [of "\<lambda>c. True" ?st "Date 1704378600123"
      "[sampleTask, sampleEvent]" "''t1''" "[(''completed'', VBool True)]"] c d
  show ?thesis by blast
qed

section \<open>The month grid\<close>

text \<open>
  Claim C9. A day cell of the month grid renders the first three of the day's
  filtered items, so three at most. It has a \<^verbatim>\<open>+n more\<close> line exactly when the
  day has more than three items, and then n is the number of the day's items less
  three.
\<close>

theorem month_cell_shows_three:
  "shown (renderMonthCell filtered day) = take 3 (dayItems filtered day) \<and>
   length (shown (renderMonthCell filtered day)) \<le> 3 \<and>
   (length (dayItems filtered day) > 3 \<longrightarrow>
      moreCount (renderMonthCell filtered day) = Some (length (dayItems filtered day) - 3)) \<and>
   (length (dayItems filtered day) \<le> 3 \<longrightarrow>
      moreCount (renderMonthCell filtered day) = None \<and>
      shown (renderMonthCell filtered day) = dayItems filtered day) \<and>
   (\<forall>n. moreCount (renderMonthCell filtered day) = Some n \<longleftrightarrow>
      0 < n \<and> length (dayItems filtered day) = n + 3)"
  unfolding renderMonthCell_def Let_def by auto

theorem month_cell_shows_three_witness:
  "shown (renderMonthCell [sampleTask, sampleEvent, sampleBlock, sampleGoal, sampleTask]
      (Date 1704067200000)) = [sampleTask, sampleEvent, sampleBlock] \<and>
   moreCount (renderMonthCell [sampleTask, sampleEvent, sampleBlock, sampleGoal, sampleTask]
      (Date 1704067200000)) = Some 2"
proof -
  let ?f = "[sampleTask, sampleEvent, sampleBlock, sampleGoal, sampleTask]"
  have items: "dayItems ?f (Date 1704067200000) = ?f"
    by (simp add: dayItems_def sampleTask_def sampleEvent_def sampleBlock_def sampleGoal_def
        msPerDay_def)
  from month_cell_shows_three [of ?f "Date 1704067200000"] items
  show ?thesis by simp
qed

section \<open>The list view\<close>

lemma formatDate_parse: "formatDate (parseISO ts) = (case getTime (parseISO ts) of None \<Rightarrow> Inl RangeError | Some v \<Rightarrow> Inr v)"
  by (cases "parseISO ts") auto

lemma renderRows_Inr:
  "renderRows xs = Inr rows \<Longrightarrow>
   map fst rows = xs \<and> (\<forall>(item, shownStart) \<in> set rows. startMs item = Some shownStart)"
proof (induction xs arbitrary: rows)
  case Nil
  then show ?case by simp
next
  case (Cons x xs)
  then show ?case
    by (auto simp: formatDate_parse startMs_def split: option.splits sum.splits)
qed

lemma renderRows_Inr_iff:
  "(\<exists>rows. renderRows xs = Inr rows) \<longleftrightarrow> (\<forall>item \<in> set xs. startMs item \<noteq> None)"
  by (induction xs) (auto simp: formatDate_parse startMs_def split: option.splits sum.splits)

lemma mset_insertBy: "mset (insertBy cmp x xs) = add_mset x (mset xs)"
  by (induction xs) auto

lemma mset_sortBy: "mset (sortBy cmp xs) = mset xs"
  unfolding sortBy_def by (induction xs) (auto simp: mset_insertBy)

lemma set_sortBy: "set (sortBy cmp xs) = set xs"
  using mset_sortBy [of cmp xs] by (metis set_mset_mset)

text \<open>With readable start times the insertion is the insertion by the start time.\<close>

lemma insertBy_insort:
  assumes "startMs x \<noteq> None" and "\<forall>y \<in> set ys. startMs y \<noteq> None"
  shows "insertBy compareStart x ys = insort_key startKey x ys"
  using assms
  by (induction ys) (auto simp: compareStart_def startMs_def startKey_def)

lemma sortBy_sort_key:
  assumes "\<forall>y \<in> set ys. startMs y \<noteq> None"
  shows "sortBy compareStart ys = sort_key startKey ys"
  using assms
proof (induction ys)
  case Nil
  then show ?case by (simp add: sortBy_def)
next
  case (Cons y ys)
  then have ih: "sortBy compareStart ys = sort_key startKey ys" by simp
  have "\<forall>z \<in> set (sort_key startKey ys). startMs z \<noteq> None"
    using Cons.prems by simp
  with Cons.prems ih show ?case
    by (simp add: sortBy_def sort_key_def insertBy_insort)
qed

lemma ascendingStart_sorted:
  assumes "\<forall>y \<in> set ys. startMs y \<noteq> None" and "sorted (map startKey ys)"
  shows "ascendingStart ys"
  using assms
  by (induction ys rule: ascendingStart.induct) (auto simp: startKey_def)

text \<open>
  Claim C8, as amended. When every filtered item has a start time that is read as a
  valid date, the list view renders the sorted items, which are the filtered items
  rearranged, each adjacent pair in non-decreasing order of start time, and items of
  equal start time in the order they have among the filtered items.
\<close>

theorem list_view_sorted_when_readable:
  assumes "\<forall>item \<in> set filtered. startMs item \<noteq> None"
  shows "(\<exists>rows. renderListView filtered = Inr rows \<and> map fst rows = sortedItems filtered) \<and>
    mset (sortedItems filtered) = mset filtered \<and>
    ascendingStart (sortedItems filtered) \<and>
    (\<forall>k. filter (\<lambda>item. startMs item = Some k) (sortedItems filtered) =
          filter (\<lambda>item. startMs item = Some k) filtered)"
proof -
  have perm: "mset (sortedItems filtered) = mset filtered"
    by (simp add: sortedItems_def mset_sortBy)
  have key: "sortedItems filtered = sort_key startKey filtered"
    using assms by (simp add: sortedItems_def sortBy_sort_key)
  have readable: "\<forall>item \<in> set (sortedItems filtered). startMs item \<noteq> None"
    using assms by (simp add: sortedItems_def set_sortBy)
  then obtain rows where rows: "renderListView filtered = Inr rows"
    unfolding renderListView_def using renderRows_Inr_iff by blast
  then have shown: "map fst rows = sortedItems filtered"
    unfolding renderListView_def by (simp add: renderRows_Inr)
  have asc: "ascendingStart (sortedItems filtered)"
    using readable by (rule ascendingStart_sorted) (simp add: key)
  have stable: "filter (\<lambda>item. startMs item = Some k) (sortedItems filtered) =
          filter (\<lambda>item. startMs item = Some k) filtered" for k
  proof -
    have "filter (\<lambda>item. startKey item = k) (sort_key startKey filtered) =
          filter (\<lambda>item. startKey item = k) filtered"
      by (rule sort_key_stable)
    moreover have "filter (\<lambda>item. startMs item = Some k) xs = filter (\<lambda>item. startKey item = k) xs"
      if "\<forall>item \<in> set xs. startMs item \<noteq> None" for xs
      using that by (intro filter_cong) (auto simp: startKey_def)
    ultimately show ?thesis
      using assms readable by (simp add: key)
  qed
  from rows shown perm asc stable show ?thesis by blast
qed

theorem list_view_sorted_when_readable_witness:
  "sortedItems [sampleEvent, sampleBlock, sampleGoal] = [sampleGoal, sampleBlock, sampleEvent] \<and>
   ascendingStart [sampleGoal, sampleBlock, sampleEvent] \<and>
   (\<exists>rows. renderListView [sampleEvent, sampleBlock, sampleGoal] = Inr rows \<and>
      map fst rows = [sampleGoal, sampleBlock, sampleEvent])"
proof -
  have readable: "\<forall>item \<in> set [sampleEvent, sampleBlock, sampleGoal]. startMs item \<noteq> None"
    by (simp add: startMs_def sampleEvent_def sampleBlock_def sampleGoal_def newDate_def
        maxTime_def)
  have run: "sortedItems [sampleEvent, sampleBlock, sampleGoal] =
      [sampleGoal, sampleBlock, sampleEvent]"
    by code_simp
  from list_view_sorted_when_readable [OF readable] run
  show ?thesis by simp
qed

text \<open>
  The claim as it was stated fails when the start time of an item is not readable.
  A reminder whose start time is the text \<^verbatim>\<open>tomorrow\<close>, sorted with an event at ten
  and a time block at eight, stays between them, every comparison with it giving
  \<^verbatim>\<open>NaN\<close>; so the event stays before the time block, and the reminder has no start
  time to be in order with. The list view then throws instead of rendering.
\<close>

theorem list_view_unsorted_counterexample:
  "sortedItems [sampleEvent, sampleVague, sampleBlock] = [sampleEvent, sampleVague, sampleBlock] \<and>
   startMs sampleEvent = Some 1704103200000 \<and>
   startMs sampleVague = None \<and>
   startMs sampleBlock = Some 1704096000000 \<and>
   \<not> ascendingStart (sortedItems [sampleEvent, sampleVague, sampleBlock]) \<and>
   isl (renderListView [sampleEvent, sampleVague, sampleBlock])"
  by code_simp

section \<open>The dates of the items on display\<close>





section \<open>Auto-rollover on mount\<close>

lemma tasksToUpdateFrom_zip:
  "index + length rolled \<le> length tasks \<Longrightarrow>
   tasksToUpdateFrom tasks index rolled =
     Inr (map fst (filter (\<lambda>(r, t). isAutoRolled r \<noteq> isAutoRolled t)
                     (zip rolled (drop index tasks))))"
proof (induction rolled arbitrary: index)
  case Nil
  then show ?case by simp
next
  case (Cons r rolled)
  from Cons.prems have lt: "index < length tasks" and rest: "Suc index + length rolled \<le> length tasks"
    by simp_all
  from lt have split: "drop index tasks = tasks ! index # drop (Suc index) tasks"
    by (simp add: Cons_nth_drop_Suc)
  show ?case
    using lt by (simp add: Cons.IH [OF rest] split)
qed

lemma tasksToUpdateFrom_beyond:
  "index \<le> length tasks \<Longrightarrow> length tasks < index + length rolled \<Longrightarrow>
   tasksToUpdateFrom tasks index rolled = Inl TypeError"
proof (induction rolled arbitrary: index)
  case Nil
  then show ?case by simp
next
  case (Cons r rolled)
  then show ?case by (cases "index < length tasks") auto
qed

lemma effectRuns_not_mount: "effectRuns f False renders = []"
  by (induction renders) auto

text \<open>
  Claim C6. The rolled tasks being no more than the tasks, the effect issues one
  \<^verbatim>\<open>updateTask\<close> for each rolled task whose flag \<^verbatim>\<open>isAutoRolled\<close> differs from the
  flag of the task at the same index, in their order, and no other call; each call
  carries the due date of the rolled task and the flag set to true. Over the life of
  the mounted component the effect runs once, at the first render.
\<close>

theorem rollover_on_mount:
  assumes "length (autoRolloverTasks tasks) \<le> length tasks"
  shows "rolloverEffect autoRolloverTasks tasks =
     Inr (map (\<lambda>(rolled, original).
                UpdateTask (taskId rolled)
                  [(''dueDate'', dueDate rolled), (''isAutoRolled'', VBool True)])
            (filter (\<lambda>(rolled, original). isAutoRolled rolled \<noteq> isAutoRolled original)
               (zip (autoRolloverTasks tasks) tasks))) \<and>
    componentLife autoRolloverTasks (tasks # laterRenders) =
      [rolloverEffect autoRolloverTasks tasks]"
proof -
  from assms have "0 + length (autoRolloverTasks tasks) \<le> length tasks" by simp
  from tasksToUpdateFrom_zip [OF this]
  have "rolloverEffect autoRolloverTasks tasks =
     Inr (map rolloverCall (map fst (filter (\<lambda>(r, t). isAutoRolled r \<noteq> isAutoRolled t)
                     (zip (autoRolloverTasks tasks) tasks))))"
    by (simp add: rolloverEffect_def)
  also have "map rolloverCall (map fst (filter (\<lambda>(r, t). isAutoRolled r \<noteq> isAutoRolled t)
                     (zip (autoRolloverTasks tasks) tasks))) =
     map (\<lambda>(rolled, original).
                UpdateTask (taskId rolled)
                  [(''dueDate'', dueDate rolled), (''isAutoRolled'', VBool True)])
            (filter (\<lambda>(rolled, original). isAutoRolled rolled \<noteq> isAutoRolled original)
               (zip (autoRolloverTasks tasks) tasks))"
    by (simp add: rolloverCall_def case_prod_unfold comp_def)
  finally show ?thesis
    by (simp add: componentLife_def effectRuns_not_mount)
qed

theorem rollover_on_mount_witness:
  "rolloverEffect (rollForward 1704067200000) sampleTasks =
     Inr [UpdateTask ''t1'' [(''dueDate'', VTime (ISO 1704067200000)),
                             (''isAutoRolled'', VBool True)],
          UpdateTask ''t4'' [(''dueDate'', VTime (ISO 1704067200000)),
                             (''isAutoRolled'', VBool True)]] \<and>
   componentLife (rollForward 1704067200000)
       [sampleTasks, rollForward 1704067200000 sampleTasks, sampleTasks] =
     [rolloverEffect (rollForward 1704067200000) sampleTasks]"
proof -
  have len: "length (rollForward 1704067200000 sampleTasks) \<le> length sampleTasks"
    by (simp add: rollForward_def)
  have run: "map (\<lambda>(rolled, original).
                UpdateTask (taskId rolled)
                  [(''dueDate'', dueDate rolled), (''isAutoRolled'', VBool True)])
            (filter (\<lambda>(rolled, original). isAutoRolled rolled \<noteq> isAutoRolled original)
               (zip (rollForward 1704067200000 sampleTasks) sampleTasks)) =
     [UpdateTask ''t1'' [(''dueDate'', VTime (ISO 1704067200000)),
                             (''isAutoRolled'', VBool True)],
      UpdateTask ''t4'' [(''dueDate'', VTime (ISO 1704067200000)),
                             (''isAutoRolled'', VBool True)]]"
    by code_simp
  from rollover_on_mount [of "rollForward 1704067200000" sampleTasks
      "[rollForward 1704067200000 sampleTasks, sampleTasks]"] len run
  show ?thesis by simp
qed

section \<open>Navigation\<close>

subsection \<open>Years\<close>














subsection \<open>Months\<close>








subsection \<open>Time values and calendar fields\<close>













subsection \<open>Adding months\<close>








subsection \<open>The two handlers\<close>








end
